theory Spec2Isabelle
  imports Complex_Main
begin

section \<open>Python values: exceptions and strings\<close>

text \<open>
  The program is the script \<^verbatim>\<open>dsl.py\<close>. Every \<^verbatim>\<open>raise\<close> of the script and of
  the functions it calls is a value of type \<open>exn\<close>. An exception is either an instance of a
  class below Python's \<^verbatim>\<open>Exception\<close>, with the text that \<^verbatim>\<open>str(e)\<close> gives, or the
  \<^verbatim>\<open>SystemExit\<close> of \<^verbatim>\<open>sys.exit(n)\<close>, which is not below \<^verbatim>\<open>Exception\<close>: the
  clause \<^verbatim>\<open>except Exception\<close> catches the former and lets the latter pass. The
  classes are those the script names or can meet; \<open>OtherError\<close> stands for any other
  class below \<^verbatim>\<open>Exception\<close>.
\<close>

datatype exn_class =
  Exception | IndexError | TypeError | ValueError | AssertionError
  | FileNotFoundError | CalledProcessError | OtherError

datatype exn = Raised exn_class string | SystemExit nat

fun is_Exception :: "exn \<Rightarrow> bool" where
  "is_Exception (Raised c msg) = True"
| "is_Exception (SystemExit n) = False"

fun str_exn :: "exn \<Rightarrow> string" where
  "str_exn (Raised c msg) = msg"
| "str_exn (SystemExit n) = []"

text \<open>Characters are 8-bit; \<open>isspace\<close> is \<^verbatim>\<open>str.isspace\<close> on the code points below 256.\<close>

definition isspace :: "char \<Rightarrow> bool" where
  "isspace c = (of_char c \<in> {9, 10, 11, 12, 13, 28, 29, 30, 31, 32, 133, 160 :: nat})"

definition strip :: "string \<Rightarrow> string" where
  "strip s = rev (dropWhile isspace (rev (dropWhile isspace s)))"

definition startswith :: "string \<Rightarrow> string \<Rightarrow> bool" where
  "startswith s p = (take (length p) s = p)"

text \<open>\<^verbatim>\<open>s.index(c)\<close>: the first position of \<open>c\<close>, or a \<^verbatim>\<open>ValueError\<close>.\<close>

fun index :: "string \<Rightarrow> char \<Rightarrow> exn + nat" where
  "index [] c = Inl (Raised ValueError ''substring not found'')"
| "index (x # xs) c =
     (if x = c then Inr 0
      else case index xs c of Inl e \<Rightarrow> Inl e | Inr i \<Rightarrow> Inr (Suc i))"

text \<open>\<^verbatim>\<open>xs[0]\<close> on a list.\<close>

fun item0 :: "'a list \<Rightarrow> exn + 'a" where
  "item0 [] = Inl (Raised IndexError ''list index out of range'')"
| "item0 (x # xs) = Inr x"

text \<open>\<^verbatim>\<open>"%d" % n\<close> for a natural number.\<close>

fun str_of_nat :: "nat \<Rightarrow> string" where
  "str_of_nat n =
     (if n < 10 then [''0123456789'' ! n]
      else str_of_nat (n div 10) @ [''0123456789'' ! (n mod 10)])"

text \<open>Reading a decimal numeral back, to state that \<open>str_of_nat\<close> writes the number.\<close>

definition nat_of_digits :: "string \<Rightarrow> nat" where
  "nat_of_digits ds = foldl (\<lambda>a c. 10 * a + (of_char c - 48)) 0 ds"

text \<open>\<^verbatim>\<open>str.lower\<close> on ASCII text.\<close>

definition lower_char :: "char \<Rightarrow> char" where
  "lower_char c =
     (case map_of (zip ''ABCDEFGHIJKLMNOPQRSTUVWXYZ'' ''abcdefghijklmnopqrstuvwxyz'') c of
        None \<Rightarrow> c
      | Some d \<Rightarrow> d)"

definition lower :: "string \<Rightarrow> string" where
  "lower s = map lower_char s"

section \<open>The configuration file\<close>

text \<open>
  A \<open>config\<close> is the dictionary that \<^verbatim>\<open>loadConfigFile\<close> returns. The file system is a
  function from a path to the lines of the file there, \<open>None\<close> when
  \<^verbatim>\<open>os.path.exists\<close> is false. \<^verbatim>\<open>shlex.split\<close> belongs to Python's library and is a
  parameter of the model: any function from a string to a token list or an exception.
\<close>

type_synonym config = "string \<rightharpoonup> string list"

type_synonym splitter = "string \<Rightarrow> exn + string list"

definition ConfigParseError :: "nat \<Rightarrow> exn" where
  "ConfigParseError linenr =
     Raised Exception
       (''Invalid config, line '' @ str_of_nat linenr
        @ '': Error parsing line (may be a quoting issue).'')"

text \<open>The body of the \<^verbatim>\<open>try\<close> block: the key and the tokens of one stripped line.\<close>

definition parse_line :: "splitter \<Rightarrow> string \<Rightarrow> exn + (string \<times> string list)" where
  "parse_line split line =
     (case index line CHR ''='' of
        Inl e \<Rightarrow> Inl e
      | Inr pos \<Rightarrow>
          (let curKey = strip (take pos line) in
           case split (drop (pos + 1) line) of
             Inl e \<Rightarrow> Inl e
           | Inr tokens \<Rightarrow> Inr (curKey, tokens)))"

text \<open>The loop over the lines of the file, with the line counter and the dictionary so far.\<close>

fun load_lines :: "splitter \<Rightarrow> nat \<Rightarrow> config \<Rightarrow> string list \<Rightarrow> exn + config" where
  "load_lines split linenr result [] = Inr result"
| "load_lines split linenr result (l # ls) =
     (let linenr' = linenr + 1; line = strip l in
      if length line = 0 \<or> startswith line ''#'' then load_lines split linenr' result ls
      else case parse_line split line of
             Inr (curKey, tokens) \<Rightarrow> load_lines split linenr' (result(curKey \<mapsto> tokens)) ls
           | Inl e \<Rightarrow> if is_Exception e then Inl (ConfigParseError linenr') else Inl e)"

definition loadConfigFile ::
  "(string \<Rightarrow> string list option) \<Rightarrow> splitter \<Rightarrow> string \<Rightarrow> exn + config" where
  "loadConfigFile files split filename =
     (case files filename of
        None \<Rightarrow> Inr Map.empty
      | Some ls \<Rightarrow> load_lines split 0 Map.empty ls)"

subsection \<open>The format of a line, in the words of the specification\<close>

text \<open>
  A line is skipped when it is blank or a comment after trimming. The key of a line is the
  trimmed portion before its first \<open>=\<close>, its value the portion after that \<open>=\<close>. A line is
  well formed when it is not skipped, contains \<open>=\<close>, and its value splits into tokens.
\<close>

definition blank :: "string \<Rightarrow> bool" where
  "blank l = (strip l = [])"

definition comment :: "string \<Rightarrow> bool" where
  "comment l = (case strip l of [] \<Rightarrow> False | c # cs \<Rightarrow> c = CHR ''#'')"

definition key_of :: "string \<Rightarrow> string" where
  "key_of l = strip (takeWhile (\<lambda>c. c \<noteq> CHR ''='') (strip l))"

definition value_of :: "string \<Rightarrow> string" where
  "value_of l = tl (dropWhile (\<lambda>c. c \<noteq> CHR ''='') (strip l))"

definition wellformed :: "splitter \<Rightarrow> string \<Rightarrow> bool" where
  "wellformed split l =
     (\<not> blank l \<and> \<not> comment l \<and> CHR ''='' \<in> set l \<and> \<not> isl (split (value_of l)))"

definition tokens_of :: "splitter \<Rightarrow> string \<Rightarrow> string list" where
  "tokens_of split l = projr (split (value_of l))"

definition entries :: "splitter \<Rightarrow> string list \<Rightarrow> (string \<times> string list) list" where
  "entries split ls = map (\<lambda>l. (key_of l, tokens_of split l)) (filter (wellformed split) ls)"

text \<open>A tokeniser for the worked examples: it cuts at blanks, as \<^verbatim>\<open>shlex.split\<close> does
  on text with no quote and no backslash.\<close>

fun fields :: "string \<Rightarrow> string \<Rightarrow> string list" where
  "fields acc [] = (if acc = [] then [] else [acc])"
| "fields acc (c # cs) =
     (if isspace c then (if acc = [] then fields [] cs else acc # fields [] cs)
      else fields (acc @ [c]) cs)"

definition blank_split :: splitter where
  "blank_split s = Inr (fields [] s)"

section \<open>Situation detection\<close>

text \<open>
  Modelled from the spec: the classes \<^verbatim>\<open>ScreenSituation\<close>, \<^verbatim>\<open>ScreenSetup\<close> and
  \<^verbatim>\<open>RelativeScreenPosition\<close> belong to the module \<^verbatim>\<open>screen\<close>, which is not
  part of the sources. A resolution is a width and a height. The enumeration has the five
  members the specification lists. A setup holds the two optional resolutions and the
  optional relative position that its constructor receives. A situation is given by what its
  methods return: \<^verbatim>\<open>internalResolutions()\<close> a list, \<^verbatim>\<open>externalResolutions()\<close> a
  list or \<^verbatim>\<open>None\<close>, \<^verbatim>\<open>commonResolutions()\<close> a list, and \<^verbatim>\<open>forXrandr(setup)\<close>
  an argument list or an exception.
\<close>

type_synonym resolution = "nat \<times> nat"

datatype RelativeScreenPosition = LEFT | RIGHT | ABOVE | BELOW | MIRROR

definition RelativeScreenPosition_members :: "(string \<times> RelativeScreenPosition) list" where
  "RelativeScreenPosition_members =
     [(''LEFT'', LEFT), (''RIGHT'', RIGHT), (''ABOVE'', ABOVE), (''BELOW'', BELOW),
      (''MIRROR'', MIRROR)]"

record ScreenSetup =
  intResolution :: "resolution option"
  extResolution :: "resolution option"
  relPosition :: "RelativeScreenPosition option"

record ScreenSituation =
  internalResolutions :: "resolution list"
  externalResolutions :: "resolution list option"
  commonResolutions :: "resolution list"
  forXrandr :: "ScreenSetup \<Rightarrow> exn + string list"

definition commonInternalConnectorPrefixes :: "string list" where
  "commonInternalConnectorPrefixes = [''LVDS'', ''eDP'']"

definition commonInternalConnectorSuffices :: "string list" where
  "commonInternalConnectorSuffices = ['''', ''0'', ''1'', ''-0'', ''-1'']"

text \<open>The generator, as the list of what it yields.\<close>

definition commonInternalConnectorNames :: "string list" where
  "commonInternalConnectorNames =
     concat (map (\<lambda>prefix. map (\<lambda>suffix. prefix @ suffix) commonInternalConnectorSuffices)
                 commonInternalConnectorPrefixes)"

definition ConfigError :: exn where
  "ConfigError = Raised Exception ''You must specify exactly one internal connector.''"

text \<open>
  \<^verbatim>\<open>situationByConfig\<close>; its first argument is the constructor
  \<^verbatim>\<open>screen.ScreenSituation\<close>, which receives the candidate names of the internal
  connector and \<^verbatim>\<open>config.get('externalConnectors')\<close>.
\<close>

definition situationByConfig ::
  "(string list \<Rightarrow> string list option \<Rightarrow> exn + ScreenSituation) \<Rightarrow> config
   \<Rightarrow> exn + ScreenSituation" where
  "situationByConfig new config =
     (if config ''internalConnector'' \<noteq> None then
        if length (the (config ''internalConnector'')) \<noteq> 1 then Inl ConfigError
        else new (the (config ''internalConnector'')) (config ''externalConnectors'')
      else new commonInternalConnectorNames (config ''externalConnectors''))"

section \<open>The script\<close>

text \<open>
  What the script reads from outside is a \<open>world\<close>: the result of
  \<^verbatim>\<open>parser.parse_args()\<close>, of \<^verbatim>\<open>gui.getFrontend\<close>, of \<^verbatim>\<open>os.getenv('HOME')\<close>, the
  file system, \<^verbatim>\<open>shlex.split\<close>, the constructor of the situation, the answer of
  \<^verbatim>\<open>frontend.setup\<close>, the two functions of \<^verbatim>\<open>subprocess\<close>, and \<^verbatim>\<open>float\<close>
  (the number read, as a real; the values \<^verbatim>\<open>inf\<close> and \<^verbatim>\<open>nan\<close> differ from zero as
  every other non-zero number does). What it does to the outside is a trace of events. The
  state is the global variable \<^verbatim>\<open>frontend\<close> and the trace so far.
\<close>

record cmdArgs =
  frontend :: "string option"
  rel_position :: "string option"
  external_only :: bool
  internal_only :: bool

type_synonym frontend_ref = string

record world =
  parse_args :: "exn + cmdArgs"
  getFrontend :: "string option \<Rightarrow> exn + frontend_ref"
  getenv_HOME :: "string option"
  files :: "string \<Rightarrow> string list option"
  shlex_split :: splitter
  ScreenSituation_new :: "string list \<Rightarrow> string list option \<Rightarrow> exn + ScreenSituation"
  frontend_setup :: "frontend_ref \<Rightarrow> ScreenSituation \<Rightarrow> exn + ScreenSetup option"
  check_call :: "string list \<Rightarrow> exn + unit"
  check_output :: "string list \<Rightarrow> exn + string"
  float :: "string \<Rightarrow> exn + real"

datatype event =
  Print string
  | PrintCall "string list"
  | Subprocess "string list"
  | FrontendError frontend_ref string

record state =
  current_frontend :: frontend_ref
  trace :: "event list"

type_synonym 'a io = "state \<Rightarrow> (exn + 'a) \<times> state"

definition return_io :: "'a \<Rightarrow> 'a io" where
  "return_io x = (\<lambda>s. (Inr x, s))"

definition raise_io :: "exn \<Rightarrow> 'a io" where
  "raise_io e = (\<lambda>s. (Inl e, s))"

definition lift_io :: "exn + 'a \<Rightarrow> 'a io" where
  "lift_io r = (\<lambda>s. (r, s))"

definition bind_io :: "'a io \<Rightarrow> ('a \<Rightarrow> 'b io) \<Rightarrow> 'b io" where
  "bind_io m f = (\<lambda>s. case m s of (Inl e, s') \<Rightarrow> (Inl e, s') | (Inr x, s') \<Rightarrow> f x s')"

text \<open>\<^verbatim>\<open>try: m except ... as e: h e\<close>; what \<open>m\<close> did before it raised stays done.\<close>

definition try_except :: "'a io \<Rightarrow> (exn \<Rightarrow> 'a io) \<Rightarrow> 'a io" where
  "try_except m h = (\<lambda>s. case m s of (Inl e, s') \<Rightarrow> h e s' | (Inr x, s') \<Rightarrow> (Inr x, s'))"

definition emit :: "event \<Rightarrow> unit io" where
  "emit ev = (\<lambda>s. (Inr (), s\<lparr>trace := trace s @ [ev]\<rparr>))"

definition isinstance :: "exn \<Rightarrow> exn_class \<Rightarrow> bool" where
  "isinstance e c = (case e of Raised c' msg \<Rightarrow> c' = c | SystemExit n \<Rightarrow> False)"

definition subprocess_check_call :: "world \<Rightarrow> string list \<Rightarrow> unit io" where
  "subprocess_check_call w args = bind_io (emit (Subprocess args)) (\<lambda>_. lift_io (check_call w args))"

definition subprocess_check_output :: "world \<Rightarrow> string list \<Rightarrow> string io" where
  "subprocess_check_output w args =
     bind_io (emit (Subprocess args)) (\<lambda>_. lift_io (check_output w args))"

text \<open>\<^verbatim>\<open>bytes.strip()\<close>: the ASCII white space.\<close>

definition bytes_strip :: "string \<Rightarrow> string" where
  "bytes_strip s =
     (let sp = (\<lambda>c. of_char c \<in> {9, 10, 11, 12, 13, 32 :: nat})
      in rev (dropWhile sp (rev (dropWhile sp s))))"

definition turnOnBacklight :: "world \<Rightarrow> unit io" where
  "turnOnBacklight w =
     try_except
       (bind_io (subprocess_check_output w [''xbacklight'', ''-get'']) (\<lambda>output.
        bind_io (lift_io (float w (bytes_strip output))) (\<lambda>backlight.
        if backlight = 0 then subprocess_check_call w [''xbacklight'', ''-set'', ''100'']
        else return_io ())))
       (\<lambda>e.
          if isinstance e FileNotFoundError then
            emit (Print ''xbacklight has not been found, unable to turn your laptop backlight on.'')
          else if isinstance e CalledProcessError then
            emit (Print
              ''xbacklight returned an error while attempting to turn your laptop backlight on.'')
          else raise_io e)"

text \<open>The block \<^emph>\<open>construct the ScreenSetup\<close> of the script.\<close>

definition construct_setup :: "world \<Rightarrow> cmdArgs \<Rightarrow> ScreenSituation \<Rightarrow> ScreenSetup io" where
  "construct_setup w args situation =
     (if \<not> internal_only args \<and> externalResolutions situation \<noteq> None then
        if external_only args then
          bind_io (lift_io (item0 (the (externalResolutions situation)))) (\<lambda>ext.
          return_io \<lparr>intResolution = None, extResolution = Some ext, relPosition = None\<rparr>)
        else if rel_position args \<noteq> None then
          (let relPos = filter (\<lambda>relPosItem. lower (fst relPosItem) = the (rel_position args))
                               RelativeScreenPosition_members
           in if length relPos \<noteq> 1 then raise_io (Raised AssertionError ''CLI argument is ambigue'')
              else
                (let relPos = snd (relPos ! 0)
                 in if relPos = MIRROR then
                      bind_io (lift_io (item0 (commonResolutions situation))) (\<lambda>res.
                      return_io \<lparr>intResolution = Some res, extResolution = Some res,
                                 relPosition = Some relPos\<rparr>)
                    else
                      bind_io (lift_io (item0 (internalResolutions situation))) (\<lambda>int.
                      bind_io (lift_io (item0 (the (externalResolutions situation)))) (\<lambda>ext.
                      return_io \<lparr>intResolution = Some int, extResolution = Some ext,
                                 relPosition = Some relPos\<rparr>))))
        else
          bind_io (\<lambda>s. (frontend_setup w (current_frontend s) situation, s)) (\<lambda>setup.
          case setup of None \<Rightarrow> raise_io (SystemExit 1) | Some setup \<Rightarrow> return_io setup)
      else
        bind_io (lift_io (item0 (internalResolutions situation))) (\<lambda>int.
        return_io \<lparr>intResolution = Some int, extResolution = None, relPosition = None\<rparr>))"

text \<open>The blocks \<^emph>\<open>call xrandr\<close> and \<^emph>\<open>make sure the internal screen is turned on\<close>.\<close>

definition apply_setup :: "world \<Rightarrow> ScreenSituation \<Rightarrow> ScreenSetup \<Rightarrow> unit io" where
  "apply_setup w situation setup =
     bind_io (lift_io (forXrandr situation setup)) (\<lambda>xrandrCall.
     bind_io (emit (PrintCall xrandrCall)) (\<lambda>_.
     bind_io (subprocess_check_call w xrandrCall) (\<lambda>_.
     if extResolution setup = None then turnOnBacklight w else return_io ())))"

definition main_body :: "world \<Rightarrow> unit io" where
  "main_body w =
     bind_io (lift_io (parse_args w)) (\<lambda>args.
     bind_io (lift_io (getFrontend w (frontend args))) (\<lambda>fe.
     bind_io (\<lambda>s. (Inr (), s\<lparr>current_frontend := fe\<rparr>)) (\<lambda>_.
     bind_io (lift_io (case getenv_HOME w of
                         None \<Rightarrow> Inl (Raised TypeError ''unsupported operand type(s) for +'')
                       | Some home \<Rightarrow> Inr (home @ ''/.dsl.conf''))) (\<lambda>filename.
     bind_io (lift_io (loadConfigFile (files w) (shlex_split w) filename)) (\<lambda>config.
     bind_io (lift_io (situationByConfig (ScreenSituation_new w) config)) (\<lambda>situation.
     bind_io (construct_setup w args situation) (\<lambda>setup.
     apply_setup w situation setup)))))))"

text \<open>The \<^verbatim>\<open>try\<close> of the script with its clause \<^verbatim>\<open>except Exception as e\<close>.\<close>

definition main :: "world \<Rightarrow> unit io" where
  "main w =
     try_except (main_body w)
       (\<lambda>e. if is_Exception e then
               bind_io (\<lambda>s. emit (FrontendError (current_frontend s) (str_exn e)) s) (\<lambda>_.
               raise_io e)
             else raise_io e)"

text \<open>The status the process exits with: 0 at the end of the script, the argument of
  \<^verbatim>\<open>sys.exit\<close>, and 1 for an exception nobody caught.\<close>

fun exit_status :: "exn + unit \<Rightarrow> nat" where
  "exit_status (Inr u) = 0"
| "exit_status (Inl (SystemExit n)) = n"
| "exit_status (Inl (Raised c msg)) = 1"

section \<open>Worked examples\<close>

text \<open>A configuration file with a comment, a blank line and a key given twice, and one
  whose third line has no \<open>=\<close>.\<close>

definition example_conf :: "string list" where
  "example_conf =
     [''# display setup'', '''', ''internalConnector = LVDS1'',
      ''externalConnectors = HDMI1 VGA1'', ''  internalConnector=eDP1  '']"

definition example_files :: "string \<Rightarrow> string list option" where
  "example_files p = (if p = ''/home/user/.dsl.conf'' then Some example_conf else None)"

definition broken_conf :: "string list" where
  "broken_conf = [''# display setup'', '''', ''internalConnector LVDS1'', ''x = y'']"

definition broken_files :: "string \<Rightarrow> string list option" where
  "broken_files p = (if p = ''/home/user/.dsl.conf'' then Some broken_conf else None)"

definition example_config :: config where
  "example_config =
     [''externalConnectors'' \<mapsto> [''HDMI1'', ''VGA1''], ''internalConnector'' \<mapsto> [''eDP1'']]"

text \<open>A laptop whose panel and one external screen are connected, and the same with no
  resolution in common.\<close>

definition example_situation :: ScreenSituation where
  "example_situation =
     \<lparr>internalResolutions = [(1920, 1080), (1366, 768)],
      externalResolutions = Some [(1920, 1200), (1920, 1080), (1280, 1024)],
      commonResolutions = [(1920, 1080)],
      forXrandr = (\<lambda>setup. Inr [''xrandr'', ''--output'', ''eDP1'', ''--auto''])\<rparr>"

definition nocommon_situation :: ScreenSituation where
  "nocommon_situation =
     example_situation\<lparr>externalResolutions := Some [(1280, 1024)], commonResolutions := []\<rparr>"

definition example_new :: "string list \<Rightarrow> string list option \<Rightarrow> exn + ScreenSituation" where
  "example_new internalConnectors externalConnectors =
     (if ''eDP1'' \<in> set internalConnectors then Inr example_situation
      else Inl (Raised Exception ''Could not automatically find internal connector''))"

definition example_call :: "string list" where
  "example_call = [''xrandr'', ''--output'', ''eDP1'', ''--auto'']"

definition internal_setup :: ScreenSetup where
  "internal_setup = \<lparr>intResolution = Some (1920, 1080), extResolution = None, relPosition = None\<rparr>"

text \<open>Command lines.\<close>

definition no_flags :: cmdArgs where
  "no_flags = \<lparr>frontend = None, rel_position = None, external_only = False, internal_only = False\<rparr>"

definition all_flags :: cmdArgs where
  "all_flags = \<lparr>frontend = None, rel_position = Some ''mirror'', external_only = True,
                 internal_only = True\<rparr>"

definition mirror_flags :: cmdArgs where
  "mirror_flags = no_flags\<lparr>rel_position := Some ''mirror''\<rparr>"

definition external_flags :: cmdArgs where
  "external_flags = no_flags\<lparr>external_only := True\<rparr>"

text \<open>What \<^verbatim>\<open>xbacklight -get\<close> prints for a dark screen, and a \<^verbatim>\<open>float\<close> that
  reads the two numbers the examples meet.\<close>

definition example_output :: string where
  "example_output = ''0.000000'' @ [CHR 0x0A]"

definition example_float :: "string \<Rightarrow> exn + real" where
  "example_float s =
     (if s = ''0.000000'' then Inr 0
      else if s = ''100.000000'' then Inr 100
      else Inl (Raised ValueError ''could not convert string to float''))"

text \<open>Worlds: the user cancels the prompt; \<^verbatim>\<open>--internal-only\<close> with everything at
  hand; the same with a failing \<^verbatim>\<open>xrandr\<close>, with no \<^verbatim>\<open>xbacklight\<close>
  installed, and with an \<^verbatim>\<open>xbacklight\<close> that prints no number; and a command line
  that \<^verbatim>\<open>argparse\<close> rejects, which it does with \<^verbatim>\<open>sys.exit(2)\<close>.\<close>

definition cancel_world :: world where
  "cancel_world =
     \<lparr>parse_args = Inr no_flags,
      getFrontend = (\<lambda>name. Inr (case name of None \<Rightarrow> ''cli'' | Some n \<Rightarrow> n)),
      getenv_HOME = Some ''/home/user'',
      files = example_files,
      shlex_split = blank_split,
      ScreenSituation_new = example_new,
      frontend_setup = (\<lambda>fe situation. Inr None),
      check_call = (\<lambda>args. Inr ()),
      check_output = (\<lambda>args. Inr example_output),
      float = example_float\<rparr>"

definition internal_world :: world where
  "internal_world = cancel_world\<lparr>parse_args := Inr (no_flags\<lparr>internal_only := True\<rparr>)\<rparr>"

definition xrandr_fails_world :: world where
  "xrandr_fails_world =
     internal_world\<lparr>check_call :=
       (\<lambda>args. Inl (Raised CalledProcessError ''Command returned non-zero exit status 1''))\<rparr>"

definition no_xbacklight_world :: world where
  "no_xbacklight_world =
     internal_world\<lparr>check_output :=
       (\<lambda>args. Inl (Raised FileNotFoundError ''No such file or directory: xbacklight''))\<rparr>"

definition garbage_world :: world where
  "garbage_world = internal_world\<lparr>check_output := (\<lambda>args. Inr ''No outputs have backlight property'')\<rparr>"

definition bad_cli_world :: world where
  "bad_cli_world = cancel_world\<lparr>parse_args := Inl (SystemExit 2)\<rparr>"

definition initial_state :: state where
  "initial_state = \<lparr>current_frontend = ''cli'', trace = []\<rparr>"

section \<open>Properties of the configuration loader\<close>

subsection \<open>The code's slicing and the words of the specification agree\<close>

lemma index_notin: "c \<notin> set s \<Longrightarrow> index s c = Inl (Raised ValueError ''substring not found'')"
  by (induction s) auto

lemma index_in:
  "c \<in> set s \<Longrightarrow> index s c = Inr (length (takeWhile (\<lambda>x. x \<noteq> c) s))"
  by (induction s) auto

lemma take_takeWhile: "take (length (takeWhile P s)) s = takeWhile P s"
  by (induction s) auto

lemma drop_dropWhile: "drop (length (takeWhile P s)) s = dropWhile P s"
  by (induction s) auto

lemma drop_Suc_dropWhile: "drop (Suc (length (takeWhile P s))) s = tl (dropWhile P s)"
  by (induction s) auto

lemma set_strip_subset: "set (strip s) \<subseteq> set s"
proof
  fix x assume "x \<in> set (strip s)"
  then have "x \<in> set (dropWhile isspace (rev (dropWhile isspace s)))" by (simp add: strip_def)
  then have "x \<in> set (rev (dropWhile isspace s))" by (rule set_dropWhileD)
  then have "x \<in> set (dropWhile isspace s)" by simp
  then show "x \<in> set s" by (rule set_dropWhileD)
qed

lemma in_set_strip: "c \<in> set s \<Longrightarrow> \<not> isspace c \<Longrightarrow> c \<in> set (strip s)"
proof -
  assume c: "c \<in> set s" and n: "\<not> isspace c"
  have a: "\<And>xs. c \<in> set xs \<Longrightarrow> c \<in> set (dropWhile isspace xs)"
  proof -
    fix xs show "c \<in> set xs \<Longrightarrow> c \<in> set (dropWhile isspace xs)"
      using n by (induction xs) auto
  qed
  show ?thesis unfolding strip_def using a[of "rev (dropWhile isspace s)"] a[OF c] by simp
qed

lemma eq_not_space: "\<not> isspace CHR ''=''"
  by (simp add: isspace_def)

lemma eq_in_strip: "CHR ''='' \<in> set (strip l) \<longleftrightarrow> CHR ''='' \<in> set l"
  using set_strip_subset in_set_strip eq_not_space by blast

lemma skip_iff: "(length (strip l) = 0 \<or> startswith (strip l) ''#'') \<longleftrightarrow> (blank l \<or> comment l)"
  by (cases "strip l") (auto simp: blank_def comment_def startswith_def)

lemma parse_line_wellformed:
  "wellformed split l \<Longrightarrow> parse_line split (strip l) = Inr (key_of l, tokens_of split l)"
  unfolding wellformed_def parse_line_def
  by (auto simp: index_in eq_in_strip take_takeWhile drop_Suc_dropWhile key_of_def value_of_def tokens_of_def
      split: sum.splits)

lemma parse_line_no_eq:
  "CHR ''='' \<notin> set l \<Longrightarrow> parse_line split (strip l) = Inl (Raised ValueError ''substring not found'')"
  unfolding parse_line_def by (simp add: index_notin eq_in_strip)

lemma map_add_upd_snoc: "m(k \<mapsto> v) ++ map_of xs = m ++ map_of (xs @ [(k, v)])"
  by (auto simp: fun_eq_iff map_add_def split: option.splits)

lemma entries_Cons:
  "entries split (l # ls) = (if wellformed split l then (key_of l, tokens_of split l) # entries split ls else entries split ls)"
  by (simp add: entries_def)

lemma load_lines_ok:
  "\<forall>l\<in>set ls. blank l \<or> comment l \<or> wellformed split l \<Longrightarrow>
   load_lines split n m ls = Inr (m ++ map_of (rev (entries split ls)))"
proof (induction ls arbitrary: n m)
  case Nil
  then show ?case by (simp add: entries_def)
next
  case (Cons l ls)
  have rest: "\<forall>l\<in>set ls. blank l \<or> comment l \<or> wellformed split l" using Cons.prems by simp
  show ?case
  proof (cases "blank l \<or> comment l")
    case True
    then have "\<not> wellformed split l" by (auto simp: wellformed_def)
    with True show ?thesis
      using Cons.IH[OF rest] skip_iff[of l] by (simp add: entries_Cons Let_def)
  next
    case False
    then have wf: "wellformed split l" using Cons.prems by simp
    have "load_lines split n m (l # ls) = load_lines split (n + 1) (m(key_of l \<mapsto> tokens_of split l)) ls"
      using False skip_iff[of l] parse_line_wellformed[OF wf] by (simp add: Let_def)
    also have "\<dots> = Inr (m(key_of l \<mapsto> tokens_of split l) ++ map_of (rev (entries split ls)))"
      by (rule Cons.IH[OF rest])
    also have "m(key_of l \<mapsto> tokens_of split l) ++ map_of (rev (entries split ls))
          = m ++ map_of (rev (entries split (l # ls)))"
      using wf by (simp only: entries_Cons if_True rev.simps map_add_upd_snoc)
    finally show ?thesis .
  qed
qed

lemma load_lines_bad:
  "\<forall>l\<in>set pre. blank l \<or> comment l \<or> wellformed split l \<Longrightarrow>
   \<not> blank l \<Longrightarrow> \<not> comment l \<Longrightarrow> parse_line split (strip l) = Inl e \<Longrightarrow> is_Exception e \<Longrightarrow>
   load_lines split n m (pre @ l # post) = Inl (ConfigParseError (n + length pre + 1))"
proof (induction pre arbitrary: n m)
  case Nil
  then show ?case using skip_iff[of l] by (simp add: Let_def)
next
  case (Cons p pre)
  have rest: "\<forall>l\<in>set pre. blank l \<or> comment l \<or> wellformed split l" using Cons.prems by simp
  note IH = Cons.IH[OF rest Cons.prems(2-5)]
  show ?case
  proof (cases "blank p \<or> comment p")
    case True
    then show ?thesis using IH skip_iff[of p] by (simp add: Let_def)
  next
    case False
    then have wf: "wellformed split p" using Cons.prems by simp
    with False show ?thesis
      using IH skip_iff[of p] parse_line_wellformed[OF wf] by (simp add: Let_def)
  qed
qed

subsection \<open>The dictionary of a file whose lines all parse\<close>

lemma dom_entries:
  "dom (map_of (rev (entries split ls))) = key_of ` {l \<in> set ls. wellformed split l}"
  by (auto simp: dom_map_of_conv_image_fst entries_def image_iff)

lemma split_tokens_of:
  "wellformed split l \<Longrightarrow> split (value_of l) = Inr (tokens_of split l)"
  by (cases "split (value_of l)") (auto simp: wellformed_def tokens_of_def)

lemma map_of_entries_some:
  "map_of (rev (entries split ls)) k = Some v \<Longrightarrow>
   \<exists>l\<in>set ls. wellformed split l \<and> key_of l = k \<and> split (value_of l) = Inr v"
proof -
  assume "map_of (rev (entries split ls)) k = Some v"
  then have "(k, v) \<in> set (entries split ls)" using map_of_SomeD by fastforce
  then show ?thesis by (auto simp: entries_def split_tokens_of)
qed

lemma map_of_entries_last:
  assumes "wellformed split l"
    and "\<forall>x\<in>set post. wellformed split x \<longrightarrow> key_of x \<noteq> key_of l"
  shows "map_of (rev (entries split (pre @ l # post))) (key_of l) = Some (tokens_of split l)"
proof -
  have e: "entries split (pre @ l # post)
           = entries split pre @ (key_of l, tokens_of split l) # entries split post"
    using assms(1) by (simp add: entries_def)
  have "key_of l \<notin> fst ` set (entries split post)"
    using assms(2) by (auto simp: entries_def)
  then have "map_of (rev (entries split post)) (key_of l) = None"
    by (simp add: map_of_eq_None_iff)
  then show ?thesis unfolding e by (simp add: map_add_def)
qed

lemma loadConfigFile_ok:
  assumes "fs filename = Some ls"
    and "\<forall>l\<in>set ls. blank l \<or> comment l \<or> wellformed split l"
  shows "loadConfigFile fs split filename = Inr (map_of (rev (entries split ls)))"
  using assms load_lines_ok[of ls split 0 Map.empty] by (simp add: loadConfigFile_def)

subsection \<open>The line number in the message\<close>

lemma digit_value: "n < 10 \<Longrightarrow> of_char (''0123456789'' ! n) = 48 + n"
proof -
  assume "n < 10"
  then have "n \<in> {0, 1, 2, 3, 4, 5, 6, 7, 8, 9}" by auto
  then show ?thesis by auto
qed

lemma nat_of_digits_snoc:
  "nat_of_digits (ds @ [c]) = 10 * nat_of_digits ds + (of_char c - 48)"
  by (simp add: nat_of_digits_def)

lemma nat_of_digits_str_of_nat: "nat_of_digits (str_of_nat n) = n"
proof (induction n rule: str_of_nat.induct)
  case (1 n)
  show ?case
  proof (cases "n < 10")
    case True
    then show ?thesis by (simp add: nat_of_digits_def digit_value)
  next
    case False
    have "str_of_nat n = str_of_nat (n div 10) @ [''0123456789'' ! (n mod 10)]"
      using False by (subst str_of_nat.simps) simp
    then have "nat_of_digits (str_of_nat n) = 10 * (n div 10) + n mod 10"
      using 1[OF False] by (simp only: nat_of_digits_snoc digit_value[of "n mod 10"])
    then show ?thesis by simp
  qed
qed

lemma str_of_nat_inj: "str_of_nat m = str_of_nat n \<Longrightarrow> m = n"
  by (metis nat_of_digits_str_of_nat)

lemma ConfigParseError_inj: "ConfigParseError m = ConfigParseError n \<Longrightarrow> m = n"
  by (simp add: ConfigParseError_def str_of_nat_inj del: str_of_nat.simps)

lemmas line_simps = blank_def comment_def wellformed_def strip_def isspace_def key_of_def
  value_of_def blank_split_def

lemma example_conf_ok:
  "\<forall>l\<in>set example_conf. blank l \<or> comment l \<or> wellformed blank_split l"
  by (simp add: example_conf_def line_simps)

text \<open>
  Claim C5. \<^verbatim>\<open>loadConfigFile\<close> returns the empty dictionary when the file does not
  exist. For a file made only of blank lines, comment lines and well-formed lines, it
  returns a dictionary whose keys are exactly the trimmed portions before the first \<open>=\<close> of
  the well-formed lines; every key is mapped to the token split of the portion after the
  \<open>=\<close> of a line with that key, and when no key is given twice every well-formed line has
  its key mapped to its own tokens.
\<close>

theorem loadConfigFile_mapping:
  "(fs filename = None \<longrightarrow> loadConfigFile fs split filename = Inr Map.empty) \<and>
   (fs filename = Some ls \<and> (\<forall>l\<in>set ls. blank l \<or> comment l \<or> wellformed split l) \<longrightarrow>
      (\<exists>m. loadConfigFile fs split filename = Inr m \<and>
           dom m = key_of ` {l \<in> set ls. wellformed split l} \<and>
           (\<forall>k v. m k = Some v \<longrightarrow>
              (\<exists>l\<in>set ls. wellformed split l \<and> key_of l = k \<and> split (value_of l) = Inr v)) \<and>
           (distinct (map key_of (filter (wellformed split) ls)) \<longrightarrow>
              (\<forall>l\<in>set ls. wellformed split l \<longrightarrow>
                 (\<exists>v. split (value_of l) = Inr v \<and> m (key_of l) = Some v)))))"
proof (intro conjI impI)
  assume "fs filename = None"
  then show "loadConfigFile fs split filename = Inr Map.empty"
    by (simp add: loadConfigFile_def)
next
  assume a: "fs filename = Some ls \<and> (\<forall>l\<in>set ls. blank l \<or> comment l \<or> wellformed split l)"
  let ?m = "map_of (rev (entries split ls))"
  have 1: "loadConfigFile fs split filename = Inr ?m"
    using a loadConfigFile_ok by blast
  have 2: "dom ?m = key_of ` {l \<in> set ls. wellformed split l}" by (rule dom_entries)
  have 3: "\<forall>k v. ?m k = Some v \<longrightarrow>
              (\<exists>l\<in>set ls. wellformed split l \<and> key_of l = k \<and> split (value_of l) = Inr v)"
    using map_of_entries_some by blast
  have 4: "distinct (map key_of (filter (wellformed split) ls)) \<longrightarrow>
              (\<forall>l\<in>set ls. wellformed split l \<longrightarrow>
                 (\<exists>v. split (value_of l) = Inr v \<and> ?m (key_of l) = Some v))"
  proof (intro impI ballI)
    fix l assume d: "distinct (map key_of (filter (wellformed split) ls))"
      and l: "l \<in> set ls" and wf: "wellformed split l"
    have "distinct (map fst (rev (entries split ls)))"
      using d by (simp add: entries_def rev_map[symmetric] comp_def)
    moreover have "(key_of l, tokens_of split l) \<in> set (rev (entries split ls))"
      using l wf by (auto simp: entries_def)
    ultimately have "?m (key_of l) = Some (tokens_of split l)" by (rule map_of_is_SomeI)
    then show "\<exists>v. split (value_of l) = Inr v \<and> ?m (key_of l) = Some v"
      using split_tokens_of[OF wf] by blast
  qed
  show "\<exists>m. loadConfigFile fs split filename = Inr m \<and>
           dom m = key_of ` {l \<in> set ls. wellformed split l} \<and>
           (\<forall>k v. m k = Some v \<longrightarrow>
              (\<exists>l\<in>set ls. wellformed split l \<and> key_of l = k \<and> split (value_of l) = Inr v)) \<and>
           (distinct (map key_of (filter (wellformed split) ls)) \<longrightarrow>
              (\<forall>l\<in>set ls. wellformed split l \<longrightarrow>
                 (\<exists>v. split (value_of l) = Inr v \<and> m (key_of l) = Some v)))"
    using 1 2 3 4 by blast
qed

theorem loadConfigFile_mapping_witness:
  "loadConfigFile example_files blank_split ''/nowhere'' = Inr Map.empty \<and>
   (\<exists>m. loadConfigFile example_files blank_split ''/home/user/.dsl.conf'' = Inr m \<and>
        dom m = {''internalConnector'', ''externalConnectors''} \<and>
        m ''externalConnectors'' = Some [''HDMI1'', ''VGA1''])"
proof -
  have f: "example_files ''/home/user/.dsl.conf'' = Some example_conf"
    by (simp add: example_files_def)
  have n: "example_files ''/nowhere'' = None"
    by (simp add: example_files_def)
  have k: "key_of ` {l \<in> set example_conf. wellformed blank_split l}
           = {''internalConnector'', ''externalConnectors''}"
  proof -
    have "filter (wellformed blank_split) example_conf
          = [''internalConnector = LVDS1'', ''externalConnectors = HDMI1 VGA1'',
             ''  internalConnector=eDP1  '']"
      by (simp add: example_conf_def line_simps)
    then have "{l \<in> set example_conf. wellformed blank_split l}
          = set [''internalConnector = LVDS1'', ''externalConnectors = HDMI1 VGA1'',
             ''  internalConnector=eDP1  '']"
      by (simp only: set_filter[symmetric])
    then show ?thesis by (auto simp: key_of_def strip_def isspace_def)
  qed
  have 1: "loadConfigFile example_files blank_split ''/nowhere'' = Inr Map.empty"
    using loadConfigFile_mapping[of example_files "''/nowhere''" blank_split example_conf] n
    by simp
  obtain m where m: "loadConfigFile example_files blank_split ''/home/user/.dsl.conf'' = Inr m"
    and d: "dom m = key_of ` {l \<in> set example_conf. wellformed blank_split l}"
    and v: "\<forall>k v. m k = Some v \<longrightarrow>
              (\<exists>l\<in>set example_conf. wellformed blank_split l \<and> key_of l = k
                 \<and> blank_split (value_of l) = Inr v)"
    using loadConfigFile_mapping[of example_files "''/home/user/.dsl.conf''" blank_split example_conf]
      f example_conf_ok by blast
  have "''externalConnectors'' \<in> dom m" using d k by simp
  then obtain v' where v': "m ''externalConnectors'' = Some v'" by auto
  with v obtain l where "l \<in> set example_conf" "wellformed blank_split l"
    "key_of l = ''externalConnectors''" "blank_split (value_of l) = Inr v'" by blast
  then have "v' = [''HDMI1'', ''VGA1'']"
    by (auto simp: example_conf_def line_simps)
  with 1 m d k v' show ?thesis by simp
qed

text \<open>
  Claim C6. A line that is not empty after trimming, does not start with \<open>#\<close> and
  contains no \<open>=\<close> makes \<^verbatim>\<open>loadConfigFile\<close> raise the parse error that names the
  1-based number of that line in the file: when the lines before it are blank, comments or
  well formed (so that the loop reaches the line), the number is one more than the count of
  all the lines before it, the skipped ones included. The message holds the number in
  decimal notation, and different numbers give different errors (\<open>ConfigParseError_inj\<close>).
\<close>

theorem loadConfigFile_line_number:
  assumes "fs filename = Some (pre @ l # post)"
    and "\<forall>x\<in>set pre. blank x \<or> comment x \<or> wellformed split x"
    and "\<not> blank l" and "\<not> comment l" and "CHR ''='' \<notin> set l"
  shows "loadConfigFile fs split filename = Inl (ConfigParseError (length pre + 1))"
  using assms load_lines_bad[OF assms(2-4) parse_line_no_eq[OF assms(5)], of 0 Map.empty post]
  by (simp add: loadConfigFile_def)

theorem loadConfigFile_line_number_witness:
  "loadConfigFile broken_files blank_split ''/home/user/.dsl.conf''
   = Inl (Raised Exception ''Invalid config, line 3: Error parsing line (may be a quoting issue).'')"
proof -
  have f: "broken_files ''/home/user/.dsl.conf''
           = Some ([''# display setup'', ''''] @ ''internalConnector LVDS1'' # [''x = y''])"
    by (simp add: broken_files_def broken_conf_def)
  have p: "\<forall>x\<in>set [''# display setup'', '''']. blank x \<or> comment x \<or> wellformed blank_split x"
    by (simp add: line_simps)
  have b: "\<not> blank ''internalConnector LVDS1''" by (simp add: line_simps)
  have c: "\<not> comment ''internalConnector LVDS1''" by (simp add: line_simps)
  have e: "CHR ''='' \<notin> set ''internalConnector LVDS1''" by simp
  have "loadConfigFile broken_files blank_split ''/home/user/.dsl.conf''
        = Inl (ConfigParseError (length [''# display setup'', ''''] + 1))"
    using f p b c e by (rule loadConfigFile_line_number)
  then show ?thesis by (simp add: ConfigParseError_def)
qed

text \<open>
  Claim C9. When a key stands on several well-formed lines of a file whose lines all
  parse, \<^verbatim>\<open>loadConfigFile\<close> raises nothing and maps the key to the tokens of the last
  of these lines: of the line \<open>l\<close> after which no well-formed line has the key of \<open>l\<close>.
\<close>

theorem loadConfigFile_last_wins:
  assumes "fs filename = Some (pre @ l # post)"
    and "\<forall>x\<in>set (pre @ l # post). blank x \<or> comment x \<or> wellformed split x"
    and "wellformed split l"
    and "\<forall>x\<in>set post. wellformed split x \<longrightarrow> key_of x \<noteq> key_of l"
  shows "\<exists>m v. loadConfigFile fs split filename = Inr m \<and>
               split (value_of l) = Inr v \<and> m (key_of l) = Some v"
proof -
  have "loadConfigFile fs split filename = Inr (map_of (rev (entries split (pre @ l # post))))"
    using assms(1,2) by (rule loadConfigFile_ok)
  moreover have "map_of (rev (entries split (pre @ l # post))) (key_of l) = Some (tokens_of split l)"
    using assms(3,4) by (rule map_of_entries_last)
  moreover have "split (value_of l) = Inr (tokens_of split l)"
    using assms(3) by (rule split_tokens_of)
  ultimately show ?thesis by blast
qed

theorem loadConfigFile_last_wins_witness:
  "\<exists>m. loadConfigFile example_files blank_split ''/home/user/.dsl.conf'' = Inr m \<and>
       m ''internalConnector'' = Some [''eDP1'']"
proof -
  have f: "example_files ''/home/user/.dsl.conf''
           = Some ([''# display setup'', '''', ''internalConnector = LVDS1'',
                    ''externalConnectors = HDMI1 VGA1''] @ ''  internalConnector=eDP1  '' # [])"
    by (simp add: example_files_def example_conf_def)
  have a: "\<forall>x\<in>set ([''# display setup'', '''', ''internalConnector = LVDS1'',
                    ''externalConnectors = HDMI1 VGA1''] @ ''  internalConnector=eDP1  '' # []).
             blank x \<or> comment x \<or> wellformed blank_split x"
    using example_conf_ok by (simp add: example_conf_def)
  have w: "wellformed blank_split ''  internalConnector=eDP1  ''" by (simp add: line_simps)
  have p: "\<forall>x\<in>set []. wellformed blank_split x \<longrightarrow> key_of x \<noteq> key_of ''  internalConnector=eDP1  ''"
    by simp
  have k: "key_of ''  internalConnector=eDP1  '' = ''internalConnector''" by (simp add: line_simps)
  have v: "blank_split (value_of ''  internalConnector=eDP1  '') = Inr [''eDP1'']"
    by (simp add: line_simps)
  have "\<exists>m v. loadConfigFile example_files blank_split ''/home/user/.dsl.conf'' = Inr m \<and>
               blank_split (value_of ''  internalConnector=eDP1  '') = Inr v \<and>
               m (key_of ''  internalConnector=eDP1  '') = Some v"
    using f a w p by (rule loadConfigFile_last_wins)
  with k v show ?thesis by auto
qed

section \<open>Properties of situation detection and of the setup\<close>

lemmas io_defs = return_io_def raise_io_def lift_io_def bind_io_def try_except_def emit_def

lemmas world_defs = cancel_world_def internal_world_def xrandr_fails_world_def
  no_xbacklight_world_def garbage_world_def bad_cli_world_def no_flags_def initial_state_def

lemma mirror_member:
  "filter (\<lambda>relPosItem. lower (fst relPosItem) = ''mirror'') RelativeScreenPosition_members
   = [(''MIRROR'', MIRROR)]"
  by (simp add: RelativeScreenPosition_members_def lower_def lower_char_def)

text \<open>
  Claim C4. \<^verbatim>\<open>situationByConfig\<close> fails with the configuration error whenever the
  key \<^verbatim>\<open>internalConnector\<close> is mapped to a list whose length is not one. With one
  token, the constructor of the situation receives that token alone as the candidates for
  the internal connector, and the common names are not tried. Without the key it receives
  the ten names of the cross product of prefixes and suffixes, in the order of the generator.
\<close>

theorem situationByConfig_internalConnector:
  "(config ''internalConnector'' = Some ts \<and> length ts \<noteq> 1 \<longrightarrow>
      situationByConfig new config = Inl ConfigError) \<and>
   (config ''internalConnector'' = Some [t] \<longrightarrow>
      situationByConfig new config = new [t] (config ''externalConnectors'')) \<and>
   (config ''internalConnector'' = None \<longrightarrow>
      situationByConfig new config
      = new [''LVDS'', ''LVDS0'', ''LVDS1'', ''LVDS-0'', ''LVDS-1'',
             ''eDP'', ''eDP0'', ''eDP1'', ''eDP-0'', ''eDP-1'']
            (config ''externalConnectors''))"
  by (simp add: situationByConfig_def commonInternalConnectorNames_def
      commonInternalConnectorPrefixes_def commonInternalConnectorSuffices_def)

theorem situationByConfig_internalConnector_witness:
  "situationByConfig example_new [''internalConnector'' \<mapsto> [''LVDS1'', ''eDP1'']] = Inl ConfigError \<and>
   situationByConfig example_new [''internalConnector'' \<mapsto> [''eDP1'']] = Inr example_situation \<and>
   situationByConfig example_new Map.empty = Inr example_situation"
  using situationByConfig_internalConnector[of "[''internalConnector'' \<mapsto> [''LVDS1'', ''eDP1'']]"
      "[''LVDS1'', ''eDP1'']" example_new "''eDP1''"]
    situationByConfig_internalConnector[of "[''internalConnector'' \<mapsto> [''eDP1'']]"
      "[''eDP1'']" example_new "''eDP1''"]
    situationByConfig_internalConnector[of Map.empty "[]" example_new "''eDP1''"]
  by (simp add: example_new_def)

text \<open>
  Claim C1. When \<^verbatim>\<open>--internal-only\<close> is set, or \<^verbatim>\<open>externalResolutions()\<close> is
  \<^verbatim>\<open>None\<close>, the setup that is constructed has the first entry of
  \<^verbatim>\<open>internalResolutions()\<close> as its internal resolution and no external resolution,
  whatever the other flags are; with no internal resolution at all the index raises and no
  setup is constructed.
\<close>

theorem construct_setup_internal_only:
  assumes "internal_only args \<or> externalResolutions situation = None"
  shows "construct_setup w args situation s =
           (case internalResolutions situation of
              [] \<Rightarrow> (Inl (Raised IndexError ''list index out of range''), s)
            | r # rs \<Rightarrow>
                (Inr \<lparr>intResolution = Some r, extResolution = None, relPosition = None\<rparr>, s))"
  using assms by (auto simp: construct_setup_def io_defs split: list.splits)

theorem construct_setup_internal_only_witness:
  "construct_setup cancel_world all_flags example_situation initial_state
   = (Inr \<lparr>intResolution = Some (1920, 1080), extResolution = None, relPosition = None\<rparr>,
      initial_state)"
  using construct_setup_internal_only[of all_flags example_situation cancel_world initial_state]
  by (simp add: all_flags_def example_situation_def)

text \<open>
  Claim C2. With \<^verbatim>\<open>--relative-position mirror\<close>, an external screen and neither of
  the two \<^emph>\<open>only\<close> flags: when the list of common resolutions is empty the construction of
  the setup fails, with the \<^verbatim>\<open>IndexError\<close> of \<^verbatim>\<open>commonResolutions()[0]\<close> (the
  failure that the specification names \<^verbatim>\<open>NoCommonResolutionError\<close>); otherwise the
  first entry of that list is both the internal and the external resolution, and the
  position is \<open>MIRROR\<close>.
\<close>

theorem construct_setup_mirror:
  assumes "\<not> internal_only args" and "\<not> external_only args"
    and "externalResolutions situation = Some ext"
    and "rel_position args = Some ''mirror''"
  shows "construct_setup w args situation s =
           (case commonResolutions situation of
              [] \<Rightarrow> (Inl (Raised IndexError ''list index out of range''), s)
            | res # rs \<Rightarrow>
                (Inr \<lparr>intResolution = Some res, extResolution = Some res,
                      relPosition = Some MIRROR\<rparr>, s))"
  using assms by (auto simp: construct_setup_def mirror_member io_defs split: list.splits)

theorem construct_setup_mirror_witness:
  "construct_setup cancel_world mirror_flags example_situation initial_state
   = (Inr \<lparr>intResolution = Some (1920, 1080), extResolution = Some (1920, 1080),
           relPosition = Some MIRROR\<rparr>, initial_state) \<and>
   construct_setup cancel_world mirror_flags nocommon_situation initial_state
   = (Inl (Raised IndexError ''list index out of range''), initial_state)"
  using construct_setup_mirror[of mirror_flags example_situation
      "[(1920, 1200), (1920, 1080), (1280, 1024)]" cancel_world initial_state]
    construct_setup_mirror[of mirror_flags nocommon_situation "[(1280, 1024)]" cancel_world
      initial_state]
  by (simp add: mirror_flags_def no_flags_def example_situation_def nocommon_situation_def)

text \<open>
  Claim C3. With \<^verbatim>\<open>--external-only\<close>, without \<^verbatim>\<open>--internal-only\<close>, and with a
  first external resolution, the setup has that resolution as its external resolution and no
  internal resolution.
\<close>

theorem construct_setup_external_only:
  assumes "\<not> internal_only args" and "external_only args"
    and "externalResolutions situation = Some (r # rs)"
  shows "construct_setup w args situation s =
           (Inr \<lparr>intResolution = None, extResolution = Some r, relPosition = None\<rparr>, s)"
  using assms by (simp add: construct_setup_def io_defs)

theorem construct_setup_external_only_witness:
  "construct_setup cancel_world external_flags example_situation initial_state
   = (Inr \<lparr>intResolution = None, extResolution = Some (1920, 1200), relPosition = None\<rparr>,
      initial_state)"
  using construct_setup_external_only[of external_flags example_situation "(1920, 1200)"
      "[(1920, 1080), (1280, 1024)]" cancel_world initial_state]
  by (simp add: external_flags_def no_flags_def example_situation_def)

section \<open>Properties of the backlight and of the exit\<close>

lemma turnOnBacklight_run:
  "turnOnBacklight w s =
     (let s1 = s\<lparr>trace := trace s @ [Subprocess [''xbacklight'', ''-get'']]\<rparr>;
          handler = (\<lambda>e s'.
            if isinstance e FileNotFoundError then
              (Inr (), s'\<lparr>trace := trace s' @
                 [Print ''xbacklight has not been found, unable to turn your laptop backlight on.'']\<rparr>)
            else if isinstance e CalledProcessError then
              (Inr (), s'\<lparr>trace := trace s' @
                 [Print ''xbacklight returned an error while attempting to turn your laptop backlight on.'']\<rparr>)
            else (Inl e, s'))
      in case check_output w [''xbacklight'', ''-get''] of
           Inl e \<Rightarrow> handler e s1
         | Inr output \<Rightarrow>
             (case float w (bytes_strip output) of
                Inl e \<Rightarrow> handler e s1
              | Inr backlight \<Rightarrow>
                  if backlight = 0 then
                    (let s2 = s1\<lparr>trace := trace s1 @ [Subprocess [''xbacklight'', ''-set'', ''100'']]\<rparr>
                     in case check_call w [''xbacklight'', ''-set'', ''100''] of
                          Inl e \<Rightarrow> handler e s2
                        | Inr u \<Rightarrow> (Inr (), s2))
                  else (Inr (), s1)))"
  by (simp add: turnOnBacklight_def subprocess_check_output_def subprocess_check_call_def io_defs
      Let_def split: sum.splits)

lemma turnOnBacklight_trace:
  "\<exists>r evs. turnOnBacklight w s
     = (r, s\<lparr>trace := trace s @ Subprocess [''xbacklight'', ''-get''] # evs\<rparr>)"
  unfolding turnOnBacklight_run by (auto simp: Let_def split: sum.splits)

lemma apply_setup_run:
  "forXrandr situation setup = Inr call \<Longrightarrow> check_call w call = Inr () \<Longrightarrow>
   apply_setup w situation setup s =
     (if extResolution setup = None
      then turnOnBacklight w (s\<lparr>trace := trace s @ [PrintCall call, Subprocess call]\<rparr>)
      else (Inr (), s\<lparr>trace := trace s @ [PrintCall call, Subprocess call]\<rparr>))"
  by (simp add: apply_setup_def subprocess_check_call_def io_defs)

lemma main_body_reach:
  assumes "parse_args w = Inr args" and "getFrontend w (frontend args) = Inr fe"
    and "getenv_HOME w = Some home"
    and "loadConfigFile (files w) (shlex_split w) (home @ ''/.dsl.conf'') = Inr config"
    and "situationByConfig (ScreenSituation_new w) config = Inr situation"
  shows "main_body w s =
           bind_io (construct_setup w args situation) (\<lambda>setup. apply_setup w situation setup)
             (s\<lparr>current_frontend := fe\<rparr>)"
  using assms by (simp add: main_body_def io_defs)

lemma example_load:
  "loadConfigFile example_files blank_split ''/home/user/.dsl.conf'' = Inr example_config"
  by (simp add: loadConfigFile_def example_files_def example_conf_def strip_def isspace_def
      startswith_def parse_line_def blank_split_def example_config_def)

lemma example_detect: "situationByConfig example_new example_config = Inr example_situation"
  by (simp add: situationByConfig_def example_new_def example_config_def)

lemma strip_zero: "bytes_strip example_output = ''0.000000''"
  by (simp add: bytes_strip_def example_output_def)

lemma strip_garbage:
  "bytes_strip ''No outputs have backlight property'' = ''No outputs have backlight property''"
  by (simp add: bytes_strip_def)

lemma internal_construct:
  "construct_setup w (no_flags\<lparr>internal_only := True\<rparr>) example_situation s = (Inr internal_setup, s)"
  by (simp add: construct_setup_def io_defs example_situation_def internal_setup_def)

lemma example_forXrandr: "forXrandr example_situation setup = Inr example_call"
  by (simp add: example_situation_def example_call_def)

text \<open>
  Claim C8. After a successful call of \<^verbatim>\<open>xrandr\<close>, \<^verbatim>\<open>turnOnBacklight\<close> runs
  exactly when the setup has no external resolution: then the events that follow the call
  are those of \<^verbatim>\<open>turnOnBacklight\<close> and begin with the query, otherwise nothing
  follows. The routine queries first, and sets the brightness to 100 exactly when the query
  gave a number equal to zero. When the utility is absent or exits with a non-zero status, in
  the query or in the setting, the routine prints a message and returns normally.
\<close>

theorem backlight_best_effort:
  "(forXrandr situation setup = Inr call \<and> check_call w call = Inr () \<longrightarrow>
      (\<exists>r evs. apply_setup w situation setup s
                 = (r, s\<lparr>trace := trace s @ [PrintCall call, Subprocess call] @ evs\<rparr>) \<and>
         (if extResolution setup = None
          then turnOnBacklight w (s\<lparr>trace := trace s @ [PrintCall call, Subprocess call]\<rparr>)
                 = (r, s\<lparr>trace := trace s @ [PrintCall call, Subprocess call] @ evs\<rparr>) \<and>
               (\<exists>evs'. evs = Subprocess [''xbacklight'', ''-get''] # evs')
          else r = Inr () \<and> evs = []))) \<and>
   (\<exists>r evs. turnOnBacklight w s
             = (r, s\<lparr>trace := trace s @ Subprocess [''xbacklight'', ''-get''] # evs\<rparr>) \<and>
      (Subprocess [''xbacklight'', ''-set'', ''100''] \<in> set evs \<longleftrightarrow>
         (\<exists>output. check_output w [''xbacklight'', ''-get''] = Inr output \<and>
                   float w (bytes_strip output) = Inr 0))) \<and>
   ((check_output w [''xbacklight'', ''-get''] = Inl e \<or>
     (\<exists>output. check_output w [''xbacklight'', ''-get''] = Inr output \<and>
               float w (bytes_strip output) = Inr 0 \<and>
               check_call w [''xbacklight'', ''-set'', ''100''] = Inl e)) \<and>
    (isinstance e FileNotFoundError \<or> isinstance e CalledProcessError) \<longrightarrow>
      fst (turnOnBacklight w s) = Inr () \<and>
      (\<exists>msg. last (trace (snd (turnOnBacklight w s))) = Print msg))"
proof (intro conjI)
  show "forXrandr situation setup = Inr call \<and> check_call w call = Inr () \<longrightarrow>
      (\<exists>r evs. apply_setup w situation setup s
                 = (r, s\<lparr>trace := trace s @ [PrintCall call, Subprocess call] @ evs\<rparr>) \<and>
         (if extResolution setup = None
          then turnOnBacklight w (s\<lparr>trace := trace s @ [PrintCall call, Subprocess call]\<rparr>)
                 = (r, s\<lparr>trace := trace s @ [PrintCall call, Subprocess call] @ evs\<rparr>) \<and>
               (\<exists>evs'. evs = Subprocess [''xbacklight'', ''-get''] # evs')
          else r = Inr () \<and> evs = []))"
  proof
    assume a: "forXrandr situation setup = Inr call \<and> check_call w call = Inr ()"
    let ?s1 = "s\<lparr>trace := trace s @ [PrintCall call, Subprocess call]\<rparr>"
    show "\<exists>r evs. apply_setup w situation setup s
                 = (r, s\<lparr>trace := trace s @ [PrintCall call, Subprocess call] @ evs\<rparr>) \<and>
         (if extResolution setup = None
          then turnOnBacklight w ?s1
                 = (r, s\<lparr>trace := trace s @ [PrintCall call, Subprocess call] @ evs\<rparr>) \<and>
               (\<exists>evs'. evs = Subprocess [''xbacklight'', ''-get''] # evs')
          else r = Inr () \<and> evs = [])"
    proof (cases "extResolution setup = None")
      case True
      obtain r evs where t: "turnOnBacklight w ?s1
          = (r, ?s1\<lparr>trace := trace ?s1 @ Subprocess [''xbacklight'', ''-get''] # evs\<rparr>)"
        using turnOnBacklight_trace by blast
      have "apply_setup w situation setup s = turnOnBacklight w ?s1"
        using a True by (simp add: apply_setup_run)
      with t True show ?thesis by auto
    next
      case False
      then obtain x where x: "extResolution setup = Some x" by blast
      have "apply_setup w situation setup s = (Inr (), ?s1)"
        using a x by (simp add: apply_setup_run)
      with x show ?thesis
        by (intro exI[of _ "Inr ()"] exI[of _ "[]"]) simp
    qed
  qed
next
  show "\<exists>r evs. turnOnBacklight w s
             = (r, s\<lparr>trace := trace s @ Subprocess [''xbacklight'', ''-get''] # evs\<rparr>) \<and>
      (Subprocess [''xbacklight'', ''-set'', ''100''] \<in> set evs \<longleftrightarrow>
         (\<exists>output. check_output w [''xbacklight'', ''-get''] = Inr output \<and>
                   float w (bytes_strip output) = Inr 0))"
    unfolding turnOnBacklight_run
    by (auto simp: Let_def split: sum.splits)
next
  show "(check_output w [''xbacklight'', ''-get''] = Inl e \<or>
     (\<exists>output. check_output w [''xbacklight'', ''-get''] = Inr output \<and>
               float w (bytes_strip output) = Inr 0 \<and>
               check_call w [''xbacklight'', ''-set'', ''100''] = Inl e)) \<and>
    (isinstance e FileNotFoundError \<or> isinstance e CalledProcessError) \<longrightarrow>
      fst (turnOnBacklight w s) = Inr () \<and>
      (\<exists>msg. last (trace (snd (turnOnBacklight w s))) = Print msg)"
    unfolding turnOnBacklight_run
    by (auto simp: Let_def split: sum.splits)
qed

theorem backlight_best_effort_witness:
  "fst (turnOnBacklight no_xbacklight_world initial_state) = Inr () \<and>
   fst (apply_setup no_xbacklight_world example_situation internal_setup initial_state) = Inr () \<and>
   trace (snd (apply_setup no_xbacklight_world example_situation internal_setup initial_state))
   = [PrintCall example_call, Subprocess example_call, Subprocess [''xbacklight'', ''-get''],
      Print ''xbacklight has not been found, unable to turn your laptop backlight on.'']"
proof -
  let ?e = "Raised FileNotFoundError ''No such file or directory: xbacklight''"
  let ?s1 = "initial_state\<lparr>trace := trace initial_state @ [PrintCall example_call, Subprocess example_call]\<rparr>"
  note t = backlight_best_effort[of example_situation internal_setup example_call
      no_xbacklight_world initial_state ?e]
  have h1: "forXrandr example_situation internal_setup = Inr example_call \<and>
            check_call no_xbacklight_world example_call = Inr ()"
    by (simp add: example_forXrandr world_defs)
  have h2: "extResolution internal_setup = None" by (simp add: internal_setup_def)
  have h3: "check_output no_xbacklight_world [''xbacklight'', ''-get''] = Inl ?e"
    by (simp add: world_defs)
  have h4: "isinstance ?e FileNotFoundError" by (simp add: isinstance_def)
  from t h1 h2 obtain r evs where
    a: "apply_setup no_xbacklight_world example_situation internal_setup initial_state
        = (r, initial_state\<lparr>trace := trace initial_state @ [PrintCall example_call, Subprocess example_call] @ evs\<rparr>)"
    and b: "turnOnBacklight no_xbacklight_world ?s1
        = (r, initial_state\<lparr>trace := trace initial_state @ [PrintCall example_call, Subprocess example_call] @ evs\<rparr>)"
    by auto
  have c: "turnOnBacklight no_xbacklight_world ?s1
        = (Inr (), ?s1\<lparr>trace := trace ?s1 @ [Subprocess [''xbacklight'', ''-get''],
             Print ''xbacklight has not been found, unable to turn your laptop backlight on.'']\<rparr>)"
    using h3 by (simp add: turnOnBacklight_run isinstance_def)
  from t h3 h4 have d: "fst (turnOnBacklight no_xbacklight_world initial_state) = Inr ()"
    by blast
  from a b c d show ?thesis by (simp add: initial_state_def)
qed

text \<open>
  Claim C10. Whatever exception the query, the conversion of its output to a number or
  the setting raises, \<^verbatim>\<open>turnOnBacklight\<close> returns normally when it is a
  \<^verbatim>\<open>FileNotFoundError\<close> or a \<^verbatim>\<open>CalledProcessError\<close> and raises it otherwise.
  When the output of the query is no number, the \<^verbatim>\<open>ValueError\<close> leaves the routine,
  the handler of the script shows it through the frontend, and the script ends with it.
\<close>

theorem turnOnBacklight_suppresses:
  "((check_output w [''xbacklight'', ''-get''] = Inl e \<or>
     (\<exists>output. check_output w [''xbacklight'', ''-get''] = Inr output \<and>
        (float w (bytes_strip output) = Inl e \<or>
         float w (bytes_strip output) = Inr 0 \<and>
         check_call w [''xbacklight'', ''-set'', ''100''] = Inl e))) \<longrightarrow>
      fst (turnOnBacklight w s)
      = (if isinstance e FileNotFoundError \<or> isinstance e CalledProcessError then Inr ()
         else Inl e)) \<and>
   (parse_args w = Inr args \<and> getFrontend w (frontend args) = Inr fe \<and>
    getenv_HOME w = Some home \<and>
    loadConfigFile (files w) (shlex_split w) (home @ ''/.dsl.conf'') = Inr config \<and>
    situationByConfig (ScreenSituation_new w) config = Inr situation \<and>
    construct_setup w args situation (s\<lparr>current_frontend := fe\<rparr>)
      = (Inr setup, s\<lparr>current_frontend := fe\<rparr>) \<and>
    forXrandr situation setup = Inr call \<and> check_call w call = Inr () \<and>
    extResolution setup = None \<and>
    check_output w [''xbacklight'', ''-get''] = Inr output \<and>
    float w (bytes_strip output) = Inl (Raised ValueError msg) \<longrightarrow>
      main w s = (Inl (Raised ValueError msg),
                  s\<lparr>current_frontend := fe,
                    trace := trace s @ [PrintCall call, Subprocess call,
                                        Subprocess [''xbacklight'', ''-get''],
                                        FrontendError fe msg]\<rparr>))"
proof (intro conjI impI)
  assume "check_output w [''xbacklight'', ''-get''] = Inl e \<or>
     (\<exists>output. check_output w [''xbacklight'', ''-get''] = Inr output \<and>
        (float w (bytes_strip output) = Inl e \<or>
         float w (bytes_strip output) = Inr 0 \<and>
         check_call w [''xbacklight'', ''-set'', ''100''] = Inl e))"
  then show "fst (turnOnBacklight w s)
      = (if isinstance e FileNotFoundError \<or> isinstance e CalledProcessError then Inr ()
         else Inl e)"
    unfolding turnOnBacklight_run by (auto simp: Let_def)
next
  assume a: "parse_args w = Inr args \<and> getFrontend w (frontend args) = Inr fe \<and>
    getenv_HOME w = Some home \<and>
    loadConfigFile (files w) (shlex_split w) (home @ ''/.dsl.conf'') = Inr config \<and>
    situationByConfig (ScreenSituation_new w) config = Inr situation \<and>
    construct_setup w args situation (s\<lparr>current_frontend := fe\<rparr>)
      = (Inr setup, s\<lparr>current_frontend := fe\<rparr>) \<and>
    forXrandr situation setup = Inr call \<and> check_call w call = Inr () \<and>
    extResolution setup = None \<and>
    check_output w [''xbacklight'', ''-get''] = Inr output \<and>
    float w (bytes_strip output) = Inl (Raised ValueError msg)"
  then have "main_body w s
      = apply_setup w situation setup (s\<lparr>current_frontend := fe\<rparr>)"
    by (simp add: main_body_reach[of w args fe home config situation] bind_io_def)
  also have "\<dots> = turnOnBacklight w
      (s\<lparr>current_frontend := fe, trace := trace s @ [PrintCall call, Subprocess call]\<rparr>)"
    using a by (simp add: apply_setup_run)
  also have "\<dots> = (Inl (Raised ValueError msg),
      s\<lparr>current_frontend := fe,
        trace := trace s @ [PrintCall call, Subprocess call, Subprocess [''xbacklight'', ''-get'']]\<rparr>)"
    using a by (simp add: turnOnBacklight_run isinstance_def)
  finally show "main w s = (Inl (Raised ValueError msg),
                  s\<lparr>current_frontend := fe,
                    trace := trace s @ [PrintCall call, Subprocess call,
                                        Subprocess [''xbacklight'', ''-get''],
                                        FrontendError fe msg]\<rparr>)"
    by (simp add: main_def io_defs)
qed

theorem turnOnBacklight_suppresses_witness:
  "fst (turnOnBacklight garbage_world initial_state)
   = Inl (Raised ValueError ''could not convert string to float'') \<and>
   fst (turnOnBacklight no_xbacklight_world initial_state) = Inr () \<and>
   main garbage_world initial_state
   = (Inl (Raised ValueError ''could not convert string to float''),
      \<lparr>current_frontend = ''cli'',
       trace = [PrintCall example_call, Subprocess example_call,
                Subprocess [''xbacklight'', ''-get''],
                FrontendError ''cli'' ''could not convert string to float'']\<rparr>)"
proof -
  let ?v = "Raised ValueError ''could not convert string to float''"
  let ?f = "Raised FileNotFoundError ''No such file or directory: xbacklight''"
  let ?g = "''No outputs have backlight property''"
  have o: "check_output garbage_world [''xbacklight'', ''-get''] = Inr ?g"
    by (simp add: world_defs)
  have fl: "float garbage_world (bytes_strip ?g) = Inl ?v"
    by (simp add: world_defs strip_garbage example_float_def)
  have 1: "fst (turnOnBacklight garbage_world initial_state) = Inl ?v"
    using turnOnBacklight_suppresses[of garbage_world ?v initial_state] o fl
    by (simp add: isinstance_def)
  have 2: "fst (turnOnBacklight no_xbacklight_world initial_state) = Inr ()"
    using turnOnBacklight_suppresses[of no_xbacklight_world ?f initial_state]
    by (simp add: isinstance_def world_defs)
  have 3: "main garbage_world initial_state
      = (Inl ?v, initial_state\<lparr>current_frontend := ''cli'',
           trace := trace initial_state @ [PrintCall example_call, Subprocess example_call,
                Subprocess [''xbacklight'', ''-get''], FrontendError ''cli'' ''could not convert string to float'']\<rparr>)"
    using turnOnBacklight_suppresses[of garbage_world ?v initial_state
        "no_flags\<lparr>internal_only := True\<rparr>" "''cli''" "''/home/user''"
        example_config example_situation internal_setup example_call ?g "''could not convert string to float''"]
      o fl example_load example_detect internal_construct example_forXrandr
    by (simp add: world_defs internal_setup_def)
  from 1 2 3 show ?thesis by (simp add: initial_state_def)
qed

text \<open>
  Claim C7, as stated, fails: the handler of the script is \<^verbatim>\<open>except Exception\<close>, and a
  \<^verbatim>\<open>SystemExit\<close> that a callee raises (here \<^verbatim>\<open>argparse\<close>, on a command line it
  rejects) is an exception raised before completion that reaches no frontend.
\<close>

theorem main_exit_counterexample:
  "parse_args bad_cli_world = Inl (SystemExit 2) \<and>
   fst (main bad_cli_world initial_state) = Inl (SystemExit 2) \<and>
   trace (snd (main bad_cli_world initial_state)) = [] \<and>
   exit_status (fst (main bad_cli_world initial_state)) = 2"
  by (simp add: main_def main_body_def io_defs bad_cli_world_def cancel_world_def initial_state_def)

text \<open>
  Claim C7, amended. The script exits with status 0 when its body returns. When the
  frontend is asked and returns no setup, the script exits with status 1, and nothing was
  run and nothing reported: the trace is the one before the run. Every exception of a class
  below \<^verbatim>\<open>Exception\<close> that leaves the body is shown, with its text, through the
  frontend that is current at that moment, as the last event, and is raised again: the exit
  status is not 0. A \<^verbatim>\<open>SystemExit\<close> leaves the script as it is, unreported, with its
  own status.
\<close>

theorem main_exit:
  "(main_body w s = (Inr (), s') \<longrightarrow>
      main w s = (Inr (), s') \<and> exit_status (fst (main w s)) = 0) \<and>
   (parse_args w = Inr args \<and> getFrontend w (frontend args) = Inr fe \<and>
    getenv_HOME w = Some home \<and>
    loadConfigFile (files w) (shlex_split w) (home @ ''/.dsl.conf'') = Inr config \<and>
    situationByConfig (ScreenSituation_new w) config = Inr situation \<and>
    \<not> internal_only args \<and> externalResolutions situation \<noteq> None \<and>
    \<not> external_only args \<and> rel_position args = None \<and>
    frontend_setup w fe situation = Inr None \<longrightarrow>
      main w s = (Inl (SystemExit 1), s\<lparr>current_frontend := fe\<rparr>) \<and>
      exit_status (fst (main w s)) = 1) \<and>
   (main_body w s = (Inl (Raised c msg), s') \<longrightarrow>
      main w s = (Inl (Raised c msg),
                  s'\<lparr>trace := trace s' @ [FrontendError (current_frontend s') msg]\<rparr>) \<and>
      exit_status (fst (main w s)) \<noteq> 0) \<and>
   (main_body w s = (Inl (SystemExit n), s') \<longrightarrow>
      main w s = (Inl (SystemExit n), s') \<and> exit_status (fst (main w s)) = n)"
proof (intro conjI impI)
  assume a: "parse_args w = Inr args \<and> getFrontend w (frontend args) = Inr fe \<and>
    getenv_HOME w = Some home \<and>
    loadConfigFile (files w) (shlex_split w) (home @ ''/.dsl.conf'') = Inr config \<and>
    situationByConfig (ScreenSituation_new w) config = Inr situation \<and>
    \<not> internal_only args \<and> externalResolutions situation \<noteq> None \<and>
    \<not> external_only args \<and> rel_position args = None \<and>
    frontend_setup w fe situation = Inr None"
  then have "main_body w s = (Inl (SystemExit 1), s\<lparr>current_frontend := fe\<rparr>)"
    by (simp add: main_body_reach[of w args fe home config situation] construct_setup_def io_defs)
  then show "main w s = (Inl (SystemExit 1), s\<lparr>current_frontend := fe\<rparr>)"
    by (simp add: main_def io_defs)
  then show "exit_status (fst (main w s)) = 1" by simp
qed (simp_all add: main_def io_defs)

theorem main_exit_witness:
  "main internal_world initial_state
   = (Inr (), \<lparr>current_frontend = ''cli'',
               trace = [PrintCall example_call, Subprocess example_call,
                        Subprocess [''xbacklight'', ''-get''],
                        Subprocess [''xbacklight'', ''-set'', ''100'']]\<rparr>) \<and>
   main cancel_world initial_state = (Inl (SystemExit 1), initial_state) \<and>
   main xrandr_fails_world initial_state
   = (Inl (Raised CalledProcessError ''Command returned non-zero exit status 1''),
      \<lparr>current_frontend = ''cli'',
       trace = [PrintCall example_call, Subprocess example_call,
                FrontendError ''cli'' ''Command returned non-zero exit status 1'']\<rparr>) \<and>
   main bad_cli_world initial_state = (Inl (SystemExit 2), initial_state)"
proof -
  let ?ok = "\<lparr>current_frontend = ''cli'',
               trace = [PrintCall example_call, Subprocess example_call,
                        Subprocess [''xbacklight'', ''-get''],
                        Subprocess [''xbacklight'', ''-set'', ''100'']]\<rparr>"
  let ?ko = "\<lparr>current_frontend = ''cli'',
               trace = [PrintCall example_call, Subprocess example_call]\<rparr>"
  let ?flags = "no_flags\<lparr>internal_only := True\<rparr>"
  let ?s0 = "initial_state\<lparr>current_frontend := ''cli''\<rparr>"
  have r1: "main_body internal_world initial_state
      = bind_io (construct_setup internal_world ?flags example_situation)
          (\<lambda>setup. apply_setup internal_world example_situation setup) ?s0"
    by (rule main_body_reach[where home = "''/home/user''" and config = example_config])
      (simp_all add: world_defs example_load example_detect)
  have a1: "apply_setup internal_world example_situation internal_setup ?s0
      = turnOnBacklight internal_world
          (?s0\<lparr>trace := trace ?s0 @ [PrintCall example_call, Subprocess example_call]\<rparr>)"
    using apply_setup_run[of example_situation internal_setup example_call internal_world ?s0]
    by (simp add: example_forXrandr world_defs internal_setup_def)
  have t1: "turnOnBacklight internal_world
          (?s0\<lparr>trace := trace ?s0 @ [PrintCall example_call, Subprocess example_call]\<rparr>)
      = (Inr (), ?ok)"
    by (simp add: turnOnBacklight_run world_defs strip_zero example_float_def)
  have b1: "main_body internal_world initial_state = (Inr (), ?ok)"
    using r1 a1 t1 by (simp add: bind_io_def internal_construct)
  have r3: "main_body xrandr_fails_world initial_state
      = bind_io (construct_setup xrandr_fails_world ?flags example_situation)
          (\<lambda>setup. apply_setup xrandr_fails_world example_situation setup) ?s0"
    by (rule main_body_reach[where home = "''/home/user''" and config = example_config])
      (simp_all add: world_defs example_load example_detect)
  have a3: "apply_setup xrandr_fails_world example_situation internal_setup ?s0
      = (Inl (Raised CalledProcessError ''Command returned non-zero exit status 1''), ?ko)"
    by (simp add: apply_setup_def subprocess_check_call_def io_defs example_forXrandr world_defs)
  have b3: "main_body xrandr_fails_world initial_state
      = (Inl (Raised CalledProcessError ''Command returned non-zero exit status 1''), ?ko)"
    using r3 a3 by (simp add: bind_io_def internal_construct)
  have b4: "main_body bad_cli_world initial_state = (Inl (SystemExit 2), initial_state)"
    by (simp add: main_body_def io_defs world_defs)
  have 1: "main internal_world initial_state = (Inr (), ?ok)"
    using main_exit[where w = internal_world and s = initial_state and s' = ?ok] b1 by simp
  have 2: "main cancel_world initial_state
      = (Inl (SystemExit 1), initial_state\<lparr>current_frontend := ''cli''\<rparr>)"
    using main_exit[where w = cancel_world and s = initial_state and args = no_flags
        and fe = "''cli''" and home = "''/home/user''" and config = example_config
        and situation = example_situation] example_load example_detect
    by (simp add: world_defs example_situation_def)
  have 3: "main xrandr_fails_world initial_state
      = (Inl (Raised CalledProcessError ''Command returned non-zero exit status 1''),
         ?ko\<lparr>trace := trace ?ko @ [FrontendError (current_frontend ?ko) ''Command returned non-zero exit status 1'']\<rparr>)"
    using main_exit[where w = xrandr_fails_world and s = initial_state and c = CalledProcessError
        and msg = "''Command returned non-zero exit status 1''" and s' = ?ko] b3 by simp
  have 4: "main bad_cli_world initial_state = (Inl (SystemExit 2), initial_state)"
    using main_exit[where w = bad_cli_world and s = initial_state and n = 2 and s' = initial_state] b4 by simp
  from 1 2 3 4 show ?thesis by (simp add: initial_state_def)
qed

end
